theory Spec2Isabelle
  imports Main "HOL-Library.Sublist"
begin

section \<open>Python strings\<close>

text \<open>
  A Python \<^verbatim>\<open>str\<close> is modelled as a \<^typ>\<open>string\<close>: one list element per character of the
  source string (the characters below code point 256). \<^verbatim>\<open>len\<close> is \<^const>\<open>length\<close>, the slice
  \<^verbatim>\<open>s[:n]\<close> is \<^term>\<open>take n s\<close>, \<^verbatim>\<open>a in s\<close> is \<^term>\<open>sublist a s\<close>, and an \<^verbatim>\<open>Optional[str]\<close> is a
  \<^typ>\<open>string option\<close>.
\<close>

definition isspace :: "char \<Rightarrow> bool" where
  \<comment> \<open>the characters that \<^verbatim>\<open>str.isspace\<close> accepts, among the first 256 code points\<close>
  "isspace c = (of_char c \<in> {9, 10, 11, 12, 13, 28, 29, 30, 31, 32, 133, 160 :: nat})"

definition strip :: "string \<Rightarrow> string" where
  \<comment> \<open>\<^verbatim>\<open>s.strip()\<close>: leading and trailing whitespace removed\<close>
  "strip s = rev (dropWhile isspace (rev (dropWhile isspace s)))"

function replace :: "string \<Rightarrow> string \<Rightarrow> string \<Rightarrow> string" where
  \<comment> \<open>\<^verbatim>\<open>s.replace(old, new)\<close> for a non-empty \<open>old\<close>: the occurrences of \<open>old\<close> are found
      from the left, without overlap, and each is replaced by \<open>new\<close>\<close>
  "replace old new [] = []"
| "replace old new (c # cs) =
     (if old \<noteq> [] \<and> prefix old (c # cs)
      then new @ replace old new (drop (length old) (c # cs))
      else c # replace old new cs)"
  by pat_completeness auto
termination
  by (relation "measure (\<lambda>(old, new, s). length s)") (auto simp: neq_Nil_conv)

definition truthy :: "string option \<Rightarrow> bool" where
  \<comment> \<open>the test \<^verbatim>\<open>if x:\<close> on an \<^verbatim>\<open>Optional[str]\<close>: false for \<^verbatim>\<open>None\<close> and for the empty string\<close>
  "truthy x = (case x of None \<Rightarrow> False | Some s \<Rightarrow> s \<noteq> [])"

section \<open>HTTP errors and the authentication dependency\<close>

datatype http_error = HTTPException nat string

record user_info =
  u_id :: string
  u_email :: string
  u_created_at :: string

datatype auth_response = Auth_raises string | Auth_no_user | Auth_user user_info

text \<open>
  \<^verbatim>\<open>SupabaseService.validate_user_token\<close>. The identity provider's \<^verbatim>\<open>auth.get_user\<close> is an
  external call and is a parameter: it raises, answers without a user, or answers with one.
\<close>

definition validate_user_token :: "(string \<Rightarrow> auth_response) \<Rightarrow> string \<Rightarrow> user_info option" where
  "validate_user_token get_user token =
     (case get_user token of
        Auth_user u \<Rightarrow> Some u
      | Auth_no_user \<Rightarrow> None
      | Auth_raises e \<Rightarrow> None)"

text \<open>
  \<^verbatim>\<open>get_current_user\<close> in the chat router. The 401 raised inside the \<^verbatim>\<open>try\<close> block for a
  rejected token is itself caught by \<^verbatim>\<open>except Exception\<close> and raised again with the detail
  "Authentication failed".
\<close>

definition get_current_user :: "(string \<Rightarrow> auth_response) \<Rightarrow> string option \<Rightarrow> http_error + user_info" where
  "get_current_user get_user authorization =
     (case authorization of
        None \<Rightarrow> Inl (HTTPException 401 ''Authorization header required'')
      | Some a \<Rightarrow>
          if a = [] then Inl (HTTPException 401 ''Authorization header required'')
          else (let token = replace ''Bearer '' [] a in
                case validate_user_token get_user token of
                  None \<Rightarrow> Inl (HTTPException 401 ''Authentication failed'')
                | Some user \<Rightarrow> Inr user))"

section \<open>Session titles\<close>

definition title_of_message :: "string \<Rightarrow> string" where
  \<comment> \<open>\<^verbatim>\<open>title\<close> in \<^verbatim>\<open>log_chat_message\<close>\<close>
  "title_of_message user_message =
     (if length user_message > 50 then take 50 user_message @ ''...'' else user_message)"

definition new_title_of_message :: "string \<Rightarrow> string" where
  \<comment> \<open>\<^verbatim>\<open>new_title\<close> in \<^verbatim>\<open>send_chat_message\<close>\<close>
  "new_title_of_message message =
     (let new_title = strip (take 50 message)
      in if length message > 50 then new_title @ ''...'' else new_title)"

section \<open>The datastore\<close>

text \<open>
  The two tables of the external datastore. A timestamp (the ISO-8601 text that
  \<^verbatim>\<open>datetime.utcnow().isoformat() + "Z"\<close> produces, stored in a timestamp column) is modelled
  by the instant it denotes, a \<^typ>\<open>nat\<close>, so that the order of a timestamp column is \<open>\<le>\<close>.

  A row of \<^verbatim>\<open>chat_messages\<close> and the dictionary \<^verbatim>\<open>message_data\<close> share one record. The entry
  \<^verbatim>\<open>"session_id"\<close> of the dictionary is \<open>None\<close> when the key is absent, \<open>Some None\<close> when it is
  present and null, and \<open>Some (Some sid)\<close> otherwise; a stored row always has the key.
\<close>

record session =
  s_id :: string
  s_user_id :: string
  s_title :: string
  s_created_at :: nat
  s_updated_at :: nat
  s_message_count :: int

record chat_message =
  m_id :: string
  m_user_id :: string
  m_session_id :: "string option option"
  m_user_message :: string
  m_ai_response :: string
  m_created_at :: nat

record db =
  chat_sessions :: "session list"
  chat_messages :: "chat_message list"

text \<open>
  Every call of the datastore client ends in \<^verbatim>\<open>execute()\<close>, an external call. What it does is
  a parameter of each operation: it works (\<open>No_fault\<close>), it returns a result without data and
  leaves the tables as they were (\<open>No_data\<close>), or it raises an exception whose text is given
  and leaves the tables as they were (\<open>Raise\<close>).
\<close>

datatype fault = No_fault | No_data | Raise string

definition table_missing :: "string \<Rightarrow> bool" where
  \<comment> \<open>\<^verbatim>\<open>"does not exist" in str(e) or "relation" in str(e)\<close>\<close>
  "table_missing e = (sublist ''does not exist'' e \<or> sublist ''relation'' e)"

definition select_session_single :: "fault \<Rightarrow> db \<Rightarrow> string \<Rightarrow> string \<Rightarrow> string + session option" where
  \<comment> \<open>\<^verbatim>\<open>table("chat_sessions").select("*").eq("id", sid).eq("user_id", uid).single().execute()\<close>:
      \<open>Inl\<close> is the exception raised, \<open>Inr\<close> is \<^verbatim>\<open>result.data\<close>. \<^verbatim>\<open>single()\<close> raises unless exactly
      one row matches.\<close>
  "select_session_single f d sid uid =
     (case f of
        Raise e \<Rightarrow> Inl e
      | No_data \<Rightarrow> Inr None
      | No_fault \<Rightarrow>
          (case filter (\<lambda>s. s_id s = sid \<and> s_user_id s = uid) (chat_sessions d) of
             [s] \<Rightarrow> Inr (Some s)
           | _ \<Rightarrow> Inl ''JSON object requested, multiple (or no) rows returned''))"

definition insert_session :: "fault \<Rightarrow> db \<Rightarrow> session \<Rightarrow> db \<times> (string + session list)" where
  \<comment> \<open>\<^verbatim>\<open>table("chat_sessions").insert(session_data).execute()\<close>\<close>
  "insert_session f d row =
     (case f of
        Raise e \<Rightarrow> (d, Inl e)
      | No_data \<Rightarrow> (d, Inr [])
      | No_fault \<Rightarrow> (d\<lparr>chat_sessions := chat_sessions d @ [row]\<rparr>, Inr [row]))"

definition count_message :: "string option \<Rightarrow> session \<Rightarrow> session" where
  \<comment> \<open>Modelled from the spec: the datastore's own bookkeeping (the database migration, which is
      not among the sources) of the message count, "monotonic counter incremented by the store
      on each logged message", for the session a new message row refers to.\<close>
  "count_message sid s =
     (if sid = Some (s_id s) then s\<lparr>s_message_count := s_message_count s + 1\<rparr> else s)"

definition insert_message :: "fault \<Rightarrow> db \<Rightarrow> chat_message \<Rightarrow> db \<times> (string + chat_message list)" where
  \<comment> \<open>\<^verbatim>\<open>table("chat_messages").insert(message_data).execute()\<close>: the stored row has the session
      column, null when the dictionary has no such key\<close>
  "insert_message f d message_data =
     (case f of
        Raise e \<Rightarrow> (d, Inl e)
      | No_data \<Rightarrow> (d, Inr [])
      | No_fault \<Rightarrow>
          (let sid = (case m_session_id message_data of None \<Rightarrow> None | Some v \<Rightarrow> v);
               row = message_data\<lparr>m_session_id := Some sid\<rparr>
           in (d\<lparr>chat_sessions := map (count_message sid) (chat_sessions d),
                 chat_messages := chat_messages d @ [row]\<rparr>, Inr [row])))"

definition user_messages :: "db \<Rightarrow> string \<Rightarrow> string option \<Rightarrow> chat_message list" where
  \<comment> \<open>the query \<^verbatim>\<open>table("chat_messages").select(...).eq("user_id", user_id)\<close>, with
      \<^verbatim>\<open>.eq("session_id", session_id)\<close> added under \<^verbatim>\<open>if session_id:\<close>\<close>
  "user_messages d user_id session_id =
     (let query = filter (\<lambda>m. m_user_id m = user_id) (chat_messages d)
      in if truthy session_id then filter (\<lambda>m. m_session_id m = Some session_id) query else query)"

definition select_messages :: "fault \<Rightarrow> chat_message list \<Rightarrow> bool \<Rightarrow> nat \<Rightarrow> string + chat_message list" where
  \<comment> \<open>\<^verbatim>\<open>query.order("created_at", desc=...).limit(limit).execute()\<close>; rows of equal timestamp
      keep their table order when ascending\<close>
  "select_messages f query desc limit =
     (case f of
        Raise e \<Rightarrow> Inl e
      | No_data \<Rightarrow> Inr []
      | No_fault \<Rightarrow>
          (let asc = sort_key m_created_at query
           in Inr (take limit (if desc then rev asc else asc))))"

definition cascade :: "string list \<Rightarrow> chat_message list \<Rightarrow> chat_message list" where
  \<comment> \<open>Modelled from the spec: the datastore's own removal of the messages of deleted sessions
      (the database migration, which is not among the sources), "cascading removal of that
      session's messages is a datastore-level guarantee". \<open>gone\<close> are the identifiers of the
      deleted sessions.\<close>
  "cascade gone messages =
     filter (\<lambda>m. m_session_id m \<notin> set (map (\<lambda>sid. Some (Some sid)) gone)) messages"

definition delete_sessions :: "fault \<Rightarrow> db \<Rightarrow> (session \<Rightarrow> bool) \<Rightarrow> db \<times> (string + unit)" where
  \<comment> \<open>\<^verbatim>\<open>table("chat_sessions").delete().eq(...).execute()\<close>\<close>
  "delete_sessions f d matches =
     (case f of
        Raise e \<Rightarrow> (d, Inl e)
      | No_data \<Rightarrow> (d, Inr ())
      | No_fault \<Rightarrow>
          (let gone = map s_id (filter matches (chat_sessions d))
           in (d\<lparr>chat_sessions := filter (\<lambda>s. \<not> matches s) (chat_sessions d),
                 chat_messages := cascade gone (chat_messages d)\<rparr>, Inr ())))"

definition update_title :: "fault \<Rightarrow> db \<Rightarrow> string \<Rightarrow> string \<Rightarrow> string \<Rightarrow> nat \<Rightarrow> db \<times> (string + unit)" where
  \<comment> \<open>\<^verbatim>\<open>table("chat_sessions").update({"title": ..., "updated_at": ...}).eq("id", sid).eq("user_id", uid).execute()\<close>\<close>
  "update_title f d sid uid new_title now =
     (case f of
        Raise e \<Rightarrow> (d, Inl e)
      | No_data \<Rightarrow> (d, Inr ())
      | No_fault \<Rightarrow>
          (d\<lparr>chat_sessions :=
               map (\<lambda>s. if s_id s = sid \<and> s_user_id s = uid
                         then s\<lparr>s_title := new_title, s_updated_at := now\<rparr> else s)
                   (chat_sessions d)\<rparr>, Inr ()))"

definition count_sessions :: "fault \<Rightarrow> db \<Rightarrow> string \<Rightarrow> string + nat option" where
  \<comment> \<open>\<^verbatim>\<open>table("chat_sessions").select("id", count="exact").eq("user_id", uid).execute()\<close>:
      \<open>Inr\<close> is \<^verbatim>\<open>count_result.count\<close>\<close>
  "count_sessions f d uid =
     (case f of
        Raise e \<Rightarrow> Inl e
      | No_data \<Rightarrow> Inr None
      | No_fault \<Rightarrow> Inr (Some (length (filter (\<lambda>s. s_user_id s = uid) (chat_sessions d)))))"

section \<open>The datastore service\<close>

text \<open>
  The methods of \<^verbatim>\<open>SupabaseService\<close>. Each takes the database and returns the new one where
  it writes; \<open>Inl e\<close> is the exception \<open>e\<close> leaving the method. The values of
  \<^verbatim>\<open>uuid.uuid4()\<close> and \<^verbatim>\<open>datetime.utcnow()\<close> are parameters.
\<close>

definition create_chat_session ::
  "fault \<Rightarrow> string \<Rightarrow> nat \<Rightarrow> nat \<Rightarrow> db \<Rightarrow> string \<Rightarrow> string \<Rightarrow> db \<times> (string + session)" where
  "create_chat_session f uuid now1 now2 d user_id title =
     (let session_data = \<lparr>s_id = uuid, s_user_id = user_id, s_title = title,
                           s_created_at = now1, s_updated_at = now2, s_message_count = 0\<rparr>
      in case insert_session f d session_data of
           (d', Inr (row # rest)) \<Rightarrow> (d', Inr row)
         | (d', Inr []) \<Rightarrow> (d', Inl ''Failed to create chat session'')
         | (d', Inl e) \<Rightarrow> (d', Inl e))"

definition get_session_by_id :: "fault \<Rightarrow> db \<Rightarrow> string \<Rightarrow> string \<Rightarrow> session option" where
  "get_session_by_id f d session_id user_id =
     (case select_session_single f d session_id user_id of
        Inr data \<Rightarrow> data
      | Inl e \<Rightarrow> (if table_missing e then None else None))"

record log_env =
  session_uuid :: string
  session_created_now :: nat
  session_updated_now :: nat
  message_uuid :: string
  message_now :: nat
  on_insert_session :: fault
  on_insert_message :: fault

definition log_chat_message ::
  "log_env \<Rightarrow> db \<Rightarrow> string \<Rightarrow> string \<Rightarrow> string \<Rightarrow> string option \<Rightarrow> db \<times> chat_message" where
  "log_chat_message env d user_id user_message ai_response session_id =
     (let (d1, session_id1) =
            (if \<not> truthy session_id
             then (case create_chat_session (on_insert_session env) (session_uuid env)
                          (session_created_now env) (session_updated_now env)
                          d user_id (title_of_message user_message) of
                     (d', Inr session) \<Rightarrow> (d', Some (s_id session))
                   | (d', Inl session_error) \<Rightarrow> (d', None))
             else (d, session_id));
          message_data = \<lparr>m_id = message_uuid env, m_user_id = user_id,
                           m_session_id = (if truthy session_id1 then Some session_id1 else None),
                           m_user_message = user_message, m_ai_response = ai_response,
                           m_created_at = message_now env\<rparr>
      in case insert_message (on_insert_message env) d1 message_data of
           (d2, Inr (row # rest)) \<Rightarrow> (d2, row)
         | (d2, Inr []) \<Rightarrow> (d2, message_data)
         | (d2, Inl e) \<Rightarrow> (d2, message_data))"

definition get_chat_history ::
  "fault \<Rightarrow> db \<Rightarrow> string \<Rightarrow> string option \<Rightarrow> nat \<Rightarrow> chat_message list" where
  "get_chat_history f d user_id session_id limit =
     (case select_messages f (user_messages d user_id session_id) False limit of
        Inr data \<Rightarrow> data
      | Inl e \<Rightarrow> [])"

record context_message =
  c_user_message :: string
  c_ai_response :: string

definition context_of :: "chat_message \<Rightarrow> context_message" where
  \<comment> \<open>the columns chosen by \<^verbatim>\<open>select("user_message, ai_response")\<close>\<close>
  "context_of m = \<lparr>c_user_message = m_user_message m, c_ai_response = m_ai_response m\<rparr>"

definition get_recent_context ::
  "fault \<Rightarrow> db \<Rightarrow> string \<Rightarrow> string option \<Rightarrow> nat \<Rightarrow> context_message list" where
  "get_recent_context f d user_id session_id limit =
     (case select_messages f (user_messages d user_id session_id) True limit of
        Inr data \<Rightarrow> (if data \<noteq> [] then rev (map context_of data) else [])
      | Inl e \<Rightarrow> [])"

definition delete_session :: "fault \<Rightarrow> fault \<Rightarrow> db \<Rightarrow> string \<Rightarrow> string \<Rightarrow> db \<times> bool" where
  "delete_session f_verify f_delete d session_id user_id =
     (case get_session_by_id f_verify d session_id user_id of
        None \<Rightarrow> (d, False)
      | Some session \<Rightarrow>
          (case delete_sessions f_delete d (\<lambda>s. s_id s = session_id \<and> s_user_id s = user_id) of
             (d', Inr u) \<Rightarrow> (d', True)
           | (d', Inl e) \<Rightarrow> (d', if table_missing e then False else False)))"

definition delete_all_user_sessions :: "fault \<Rightarrow> fault \<Rightarrow> db \<Rightarrow> string \<Rightarrow> db \<times> (string + nat)" where
  "delete_all_user_sessions f_count f_delete d user_id =
     (case count_sessions f_count d user_id of
        Inl e \<Rightarrow> (d, if table_missing e then Inr 0 else Inl e)
      | Inr count \<Rightarrow>
          (let session_count = (case count of None \<Rightarrow> 0 | Some n \<Rightarrow> n)
           in if session_count = 0 then (d, Inr 0)
              else (case delete_sessions f_delete d (\<lambda>s. s_user_id s = user_id) of
                      (d', Inr u) \<Rightarrow> (d', Inr session_count)
                    | (d', Inl e) \<Rightarrow> (d', if table_missing e then Inr 0 else Inl e))))"

definition update_session_title ::
  "fault \<Rightarrow> fault \<Rightarrow> nat \<Rightarrow> db \<Rightarrow> string \<Rightarrow> string \<Rightarrow> string \<Rightarrow> db \<times> bool" where
  "update_session_title f_verify f_update now d session_id user_id new_title =
     (case get_session_by_id f_verify d session_id user_id of
        None \<Rightarrow> (d, False)
      | Some session \<Rightarrow>
          (case update_title f_update d session_id user_id new_title now of
             (d', Inr u) \<Rightarrow> (d', True)
           | (d', Inl e) \<Rightarrow> (d', if table_missing e then False else False)))"

section \<open>The completion service\<close>

text \<open>
  \<^verbatim>\<open>OpenAIService\<close>. The provider's \<^verbatim>\<open>chat.completions.create\<close> is an external call and is a
  parameter: it raises one of the provider's exceptions or another one, or it answers with
  \<^verbatim>\<open>choices[0].message.content\<close>, which may be missing. A prompt is a list of pairs of a role
  and a content.
\<close>

datatype completion =
  RateLimitError | AuthenticationError | APIError string | Other_exception string
  | Content "string option"

definition generate_fitness_response ::
  "((string \<times> string) list \<Rightarrow> completion) \<Rightarrow> string \<Rightarrow> string \<Rightarrow> context_message list \<Rightarrow> string + string" where
  "generate_fitness_response create system_prompt user_message conversation_history =
     (let messages =
            [(''system'', system_prompt)]
            @ (if conversation_history \<noteq> []
               then concat (map (\<lambda>msg. [(''user'', c_user_message msg), (''assistant'', c_ai_response msg)])
                              (drop (length conversation_history - 5) conversation_history))
               else [])
            @ [(''user'', user_message)]
      in case create messages of
           Content (Some ai_response) \<Rightarrow>
             if ai_response = []
             then Inl ''Failed to generate AI response: Empty response from OpenAI''
             else Inr (strip ai_response)
         | Content None \<Rightarrow> Inl ''Failed to generate AI response: Empty response from OpenAI''
         | RateLimitError \<Rightarrow> Inl ''OpenAI API rate limit exceeded. Please try again later.''
         | AuthenticationError \<Rightarrow> Inl ''OpenAI API authentication failed. Please check your API key.''
         | APIError e \<Rightarrow> Inl (''OpenAI API error: '' @ e)
         | Other_exception e \<Rightarrow> Inl (''Failed to generate AI response: '' @ e))"

definition get_chat_response ::
  "((string \<times> string) list \<Rightarrow> completion) \<Rightarrow> string \<Rightarrow> string \<Rightarrow> context_message list \<Rightarrow> string + string" where
  "get_chat_response create system_prompt user_message conversation_history =
     generate_fitness_response create system_prompt user_message conversation_history"

section \<open>The chat router\<close>

record ChatRequest =
  req_message :: string
  req_session_id :: "string option"

definition ChatRequest_valid :: "ChatRequest \<Rightarrow> bool" where
  \<comment> \<open>\<^verbatim>\<open>message: str = Field(..., min_length=1, max_length=2000)\<close>\<close>
  "ChatRequest_valid request = (1 \<le> length (req_message request) \<and> length (req_message request) \<le> 2000)"

record ChatResponse =
  resp_message :: string
  resp_timestamp :: nat
  resp_session_id :: "string option"
  resp_session_title :: "string option"

record ChatHistory =
  h_id :: string
  h_user_id :: string
  h_session_id :: string
  h_user_message :: string
  h_ai_response :: string
  h_created_at :: nat

definition ChatHistory_of :: "chat_message \<Rightarrow> ChatHistory option" where
  \<comment> \<open>\<^verbatim>\<open>ChatHistory(id=msg["id"], ...)\<close>: \<^verbatim>\<open>session_id: str\<close> is required, so the constructor
      raises on a row whose session column is null\<close>
  "ChatHistory_of msg =
     (case m_session_id msg of
        Some (Some sid) \<Rightarrow>
          Some \<lparr>h_id = m_id msg, h_user_id = m_user_id msg, h_session_id = sid,
                h_user_message = m_user_message msg, h_ai_response = m_ai_response msg,
                h_created_at = m_created_at msg\<rparr>
      | _ \<Rightarrow> None)"

record turn_env =
  on_resolve :: fault
  on_context :: fault
  completions_create :: "(string \<times> string) list \<Rightarrow> completion"
  SYSTEM_PROMPT :: string
  logging :: log_env
  on_current :: fault
  on_verify :: fault
  on_update :: fault
  title_now :: nat

text \<open>
  \<^verbatim>\<open>send_chat_message\<close>, the handler of \<^verbatim>\<open>POST /chat\<close>, after the authentication dependency
  has produced \<open>user\<close>. \<open>turn_env\<close> holds what the external calls of one turn do, one field for
  each call in the order of the handler.
\<close>

definition send_chat_message ::
  "turn_env \<Rightarrow> db \<Rightarrow> user_info \<Rightarrow> ChatRequest \<Rightarrow> db \<times> (http_error + ChatResponse)" where
  "send_chat_message env d user request =
     (if (case req_session_id request of
            None \<Rightarrow> False
          | Some sid \<Rightarrow> sid \<noteq> [] \<and> get_session_by_id (on_resolve env) d sid (u_id user) = None)
      then (d, Inl (HTTPException 404 ''Session not found or does not belong to current user''))
      else
        (let context_messages =
               get_recent_context (on_context env) d (u_id user) (req_session_id request) 5
         in case get_chat_response (completions_create env) (SYSTEM_PROMPT env) (req_message request)
                   context_messages of
              Inl e \<Rightarrow> (d, Inl (HTTPException 500 ''Failed to process chat message''))
            | Inr ai_response \<Rightarrow>
                (let (d1, stored_message) =
                       log_chat_message (logging env) d (u_id user) (req_message request)
                         ai_response (req_session_id request);
                     final_session_id =
                       (case m_session_id stored_message of
                          None \<Rightarrow> req_session_id request
                        | Some v \<Rightarrow> v);
                     (d2, updated_title) =
                       (case final_session_id of
                          None \<Rightarrow> (d1, None)
                        | Some sid \<Rightarrow>
                            if sid = [] then (d1, None)
                            else (case get_session_by_id (on_current env) d1 sid (u_id user) of
                                    None \<Rightarrow> (d1, None)
                                  | Some current_session \<Rightarrow>
                                      if s_title current_session = ''New Chat''
                                         \<and> s_message_count current_session = 1
                                      then (let new_title = new_title_of_message (req_message request)
                                            in (fst (update_session_title (on_verify env) (on_update env)
                                                       (title_now env) d1 sid (u_id user) new_title),
                                                Some new_title))
                                      else (d1, None)))
                 in (d2, Inr \<lparr>resp_message = ai_response,
                              resp_timestamp = m_created_at stored_message,
                              resp_session_id = final_session_id,
                              resp_session_title = updated_title\<rparr>))))"

definition get_session_history ::
  "fault \<Rightarrow> fault \<Rightarrow> db \<Rightarrow> user_info \<Rightarrow> string \<Rightarrow> nat \<Rightarrow> http_error + ChatHistory list" where
  \<comment> \<open>\<^verbatim>\<open>GET /chat/sessions/{session_id}/history\<close>\<close>
  "get_session_history f_verify f_read d user session_id limit =
     (case get_session_by_id f_verify d session_id (u_id user) of
        None \<Rightarrow> Inl (HTTPException 404 ''Session not found or does not belong to current user'')
      | Some session \<Rightarrow>
          (let history = get_chat_history f_read d (u_id user) (Some session_id) limit
           in case those (map ChatHistory_of history) of
                None \<Rightarrow> Inl (HTTPException 500 ''Failed to retrieve session history'')
              | Some chat_history \<Rightarrow> Inr chat_history))"

definition get_chat_history_route ::
  "fault \<Rightarrow> fault \<Rightarrow> db \<Rightarrow> user_info \<Rightarrow> nat \<Rightarrow> string option \<Rightarrow> http_error + ChatHistory list" where
  \<comment> \<open>\<^verbatim>\<open>GET /chat/history\<close>, the router's \<^verbatim>\<open>get_chat_history\<close>\<close>
  "get_chat_history_route f_verify f_read d user limit session_id =
     (if (case session_id of
            None \<Rightarrow> False
          | Some sid \<Rightarrow> sid \<noteq> [] \<and> get_session_by_id f_verify d sid (u_id user) = None)
      then Inl (HTTPException 404 ''Session not found or does not belong to current user'')
      else
        (let history = get_chat_history f_read d (u_id user) session_id limit
         in case those (map ChatHistory_of history) of
              None \<Rightarrow> Inl (HTTPException 500 ''Failed to retrieve chat history'')
            | Some chat_history \<Rightarrow> Inr chat_history))"

definition delete_chat_session ::
  "fault \<Rightarrow> fault \<Rightarrow> db \<Rightarrow> user_info \<Rightarrow> string \<Rightarrow> db \<times> (http_error + string)" where
  \<comment> \<open>\<^verbatim>\<open>DELETE /chat/sessions/{session_id}\<close>; the answer is the \<^verbatim>\<open>"message"\<close> of the body\<close>
  "delete_chat_session f_verify f_delete d user session_id =
     (case delete_session f_verify f_delete d session_id (u_id user) of
        (d', False) \<Rightarrow>
          (d', Inl (HTTPException 404 ''Session not found or does not belong to current user''))
      | (d', True) \<Rightarrow> (d', Inr ''Session deleted successfully''))"

function str_nat :: "nat \<Rightarrow> string" where
  \<comment> \<open>the decimal digits of a number, as an f-string prints it\<close>
  "str_nat n =
     (if n < 10 then [char_of (48 + n)] else str_nat (n div 10) @ [char_of (48 + n mod 10)])"
  by pat_completeness auto
termination
  by (relation "measure id") auto

declare str_nat.simps [simp del]

record DeleteAllResponse =
  da_message :: string
  da_deleted_count :: nat

definition delete_all_chat_sessions ::
  "fault \<Rightarrow> fault \<Rightarrow> db \<Rightarrow> user_info \<Rightarrow> db \<times> (http_error + DeleteAllResponse)" where
  \<comment> \<open>\<^verbatim>\<open>DELETE /chat/sessions:deleteAll\<close>\<close>
  "delete_all_chat_sessions f_count f_delete d user =
     (case delete_all_user_sessions f_count f_delete d (u_id user) of
        (d', Inr deleted_count) \<Rightarrow>
          (d', Inr \<lparr>da_message = ''Successfully deleted '' @ str_nat deleted_count @ '' chat sessions'',
                    da_deleted_count = deleted_count\<rparr>)
      | (d', Inl e) \<Rightarrow> (d', Inl (HTTPException 500 ''Failed to delete all sessions'')))"

section \<open>Example data\<close>

text \<open>
  A small database used by the concrete instances below: alice owns session \<open>s-1\<close> with six
  exchanges (stored out of chronological order), bob owns session \<open>s-7\<close> with one.
\<close>

abbreviation alice :: user_info where
  "alice \<equiv> \<lparr>u_id = ''alice'', u_email = ''alice@example.org'', u_created_at = ''2024-01-01T00:00:00Z''\<rparr>"

abbreviation carol :: user_info where
  "carol \<equiv> \<lparr>u_id = ''carol'', u_email = ''carol@example.org'', u_created_at = ''2024-03-01T00:00:00Z''\<rparr>"

abbreviation turn :: "string \<Rightarrow> string \<Rightarrow> string \<Rightarrow> string \<Rightarrow> nat \<Rightarrow> chat_message" where
  "turn i uid sid text t \<equiv>
     \<lparr>m_id = i, m_user_id = uid, m_session_id = Some (Some sid),
      m_user_message = text, m_ai_response = ''re: '' @ text, m_created_at = t\<rparr>"

abbreviation exchange :: "string \<Rightarrow> context_message" where
  "exchange text \<equiv> \<lparr>c_user_message = text, c_ai_response = ''re: '' @ text\<rparr>"

abbreviation gym_db :: db where
  "gym_db \<equiv>
     \<lparr>chat_sessions =
        [\<lparr>s_id = ''s-1'', s_user_id = ''alice'', s_title = ''Leg day'',
          s_created_at = 1, s_updated_at = 6, s_message_count = 6\<rparr>,
         \<lparr>s_id = ''s-7'', s_user_id = ''bob'', s_title = ''Protein'',
          s_created_at = 7, s_updated_at = 7, s_message_count = 1\<rparr>],
      chat_messages =
        [turn ''m-3'' ''alice'' ''s-1'' ''q3'' 3, turn ''m-1'' ''alice'' ''s-1'' ''q1'' 1,
         turn ''m-2'' ''alice'' ''s-1'' ''q2'' 2, turn ''m-7'' ''bob'' ''s-7'' ''q7'' 7,
         turn ''m-6'' ''alice'' ''s-1'' ''q6'' 6, turn ''m-4'' ''alice'' ''s-1'' ''q4'' 4,
         turn ''m-5'' ''alice'' ''s-1'' ''q5'' 5]\<rparr>"

abbreviation empty_db :: db where
  "empty_db \<equiv> \<lparr>chat_sessions = [], chat_messages = []\<rparr>"

abbreviation recall :: "(string \<times> string) list \<Rightarrow> completion" where
  \<comment> \<open>a provider that answers with the first turn that follows the system instruction\<close>
  "recall \<equiv> \<lambda>prompt. Content (Some (''You said: '' @ snd (hd (tl prompt))))"

abbreviation healthy_log :: log_env where
  "healthy_log \<equiv>
     \<lparr>session_uuid = ''s-9'', session_created_now = 10, session_updated_now = 11,
      message_uuid = ''m-9'', message_now = 12,
      on_insert_session = No_fault, on_insert_message = No_fault\<rparr>"

abbreviation healthy_env :: turn_env where
  "healthy_env \<equiv>
     \<lparr>on_resolve = No_fault, on_context = No_fault, completions_create = recall,
      SYSTEM_PROMPT = ''You are a helpful assistant.'', logging = healthy_log,
      on_current = No_fault, on_verify = No_fault, on_update = No_fault, title_now = 13\<rparr>"

abbreviation write_failing_env :: turn_env where
  \<comment> \<open>both inserts of the turn fail, everything else works\<close>
  "write_failing_env \<equiv>
     healthy_env\<lparr>logging := healthy_log\<lparr>on_insert_session := No_data,
                                           on_insert_message := Raise ''connection lost''\<rparr>\<rparr>"

abbreviation idp :: "string \<Rightarrow> auth_response" where
  \<comment> \<open>an identity provider that knows one token\<close>
  "idp \<equiv> \<lambda>token. if token = ''tok-alice'' then Auth_user alice else Auth_no_user"

section \<open>Strings: facts about \<open>strip\<close> and \<open>replace\<close>\<close>

lemma strip_id_iff:
  "strip s = s \<longleftrightarrow> s = [] \<or> (\<not> isspace (hd s) \<and> \<not> isspace (last s))"
proof (cases "s = []")
  case True
  then show ?thesis by (simp add: strip_def)
next
  case False
  show ?thesis
  proof
    assume eq: "strip s = s"
    have l1: "length (dropWhile isspace (rev (dropWhile isspace s))) \<le> length (dropWhile isspace s)"
      using length_dropWhile_le[of isspace "rev (dropWhile isspace s)"] by simp
    have l2: "length (dropWhile isspace s) \<le> length s"
      by (rule length_dropWhile_le)
    from eq have "length (dropWhile isspace (rev (dropWhile isspace s))) = length s"
      unfolding strip_def by (metis length_rev)
    with l1 l2 have "length (dropWhile isspace s) = length s" by simp
    then have front: "dropWhile isspace s = s"
      by (metis append_self_conv2 length_append add_cancel_right_left length_0_conv
          takeWhile_dropWhile_id)
    with eq have "dropWhile isspace (rev s) = rev s"
      unfolding strip_def by (metis rev_rev_ident)
    with front False show "s = [] \<or> (\<not> isspace (hd s) \<and> \<not> isspace (last s))"
      by (simp add: dropWhile_eq_self_iff hd_rev)
  next
    assume "s = [] \<or> (\<not> isspace (hd s) \<and> \<not> isspace (last s))"
    with False have h: "\<not> isspace (hd s)" and l: "\<not> isspace (last s)" by simp_all
    from h have front: "dropWhile isspace s = s"
      by (simp add: dropWhile_eq_self_iff)
    from l False have "dropWhile isspace (rev s) = rev s"
      by (simp add: dropWhile_eq_self_iff hd_rev)
    with front show "strip s = s" by (simp add: strip_def)
  qed
qed

text \<open>
  An occurrence of \<open>old\<close> cannot start inside \<open>x\<close> and run into a following copy of \<open>old\<close>
  when no proper suffix of \<open>old\<close> is a prefix of it.
\<close>

lemma no_straddle:
  assumes border: "\<And>k. 0 < k \<Longrightarrow> k < length old \<Longrightarrow> \<not> prefix (drop k old) old"
    and "x \<noteq> []" and np: "\<not> prefix old x"
  shows "\<not> prefix old (x @ old @ y)"
proof
  assume "prefix old (x @ old @ y)"
  with np obtain us where us: "old = x @ us" and p: "prefix us (old @ y)"
    unfolding prefix_append[of old x] by blast
  from us have d: "us = drop (length x) old" by simp
  from us np have "us \<noteq> []" by auto
  with us have lt: "length x < length old"
    by (metis length_append length_greater_0_conv less_add_same_cancel1)
  from us assms(2) have "length us < length old"
    by (metis length_append length_greater_0_conv less_add_same_cancel2)
  then have "length us \<le> length old" by simp
  with p have "prefix us old"
    by (metis prefix_length_prefix prefixI)
  with border[of "length x"] lt assms(2) d show False by auto
qed

lemma replace_prefix:
  assumes "old \<noteq> []"
  shows "replace old new (old @ x) = new @ replace old new x"
proof -
  from assms obtain c cs where o: "old = c # cs" by (cases old) auto
  have "replace old new (c # (cs @ x)) = new @ replace old new (drop (length old) (c # (cs @ x)))"
    using assms by (simp add: o)
  then show ?thesis by (simp add: o)
qed

lemma replace_append:
  assumes ne: "old \<noteq> []"
    and border: "\<And>k. 0 < k \<Longrightarrow> k < length old \<Longrightarrow> \<not> prefix (drop k old) old"
  shows "replace old [] (x @ old @ y) = replace old [] x @ replace old [] y"
proof (induction x rule: length_induct)
  case (1 x)
  show ?case
  proof (cases x)
    case Nil
    with ne show ?thesis by (simp add: replace_prefix)
  next
    case (Cons c cs)
    show ?thesis
    proof (cases "prefix old x")
      case True
      then obtain x' where x': "x = old @ x'" by (auto simp: prefix_def)
      with ne have "length x' < length x" by simp
      with 1 have ih: "replace old [] (x' @ old @ y) = replace old [] x' @ replace old [] y"
        by blast
      have a: "replace old [] x = replace old [] x'"
        unfolding x' using ne by (simp add: replace_prefix)
      have "replace old [] (x @ old @ y) = replace old [] (x' @ old @ y)"
        unfolding x' append_assoc using ne by (simp add: replace_prefix)
      with a ih show ?thesis by simp
    next
      case False
      with Cons have ns: "\<not> prefix old (c # (cs @ old @ y))"
        using no_straddle[OF border, of x y] by simp
      from Cons have "length cs < length x" by simp
      with 1 have ih: "replace old [] (cs @ old @ y) = replace old [] cs @ replace old [] y"
        by blast
      from False Cons have a: "replace old [] x = c # replace old [] cs" by simp
      from ns have "replace old [] (c # (cs @ old @ y)) = c # replace old [] (cs @ old @ y)"
        by simp
      with a ih Cons show ?thesis by simp
    qed
  qed
qed

lemma replace_absent: "\<not> sublist old a \<Longrightarrow> replace old [] a = a"
  by (induction a) (auto simp: sublist_Cons_right)

lemma Bearer_border:
  assumes "0 < k" and "k < length ''Bearer ''"
  shows "\<not> prefix (drop k ''Bearer '') ''Bearer ''"
proof -
  from assms have "k = 1 \<or> k = 2 \<or> k = 3 \<or> k = 4 \<or> k = 5 \<or> k = 6" by auto
  then show ?thesis by (elim disjE) simp_all
qed

section \<open>The authentication dependency\<close>

text \<open>
  C10. For every non-empty \<^verbatim>\<open>Authorization\<close> value, the token handed to token validation is
  the value with every occurrence of \<open>Bearer \<close> removed, wherever it stands: around any
  occurrence the value splits into two parts that are cleaned separately and joined. A value
  without \<open>Bearer \<close> is forwarded unchanged, and the handler's answer is then whatever token
  validation says of it.
\<close>

theorem bearer_removed_everywhere:
  assumes "authorization \<noteq> []"
  shows "get_current_user get_user (Some authorization) =
           (case validate_user_token get_user (replace ''Bearer '' [] authorization) of
              None \<Rightarrow> Inl (HTTPException 401 ''Authentication failed'')
            | Some user \<Rightarrow> Inr user)
       \<and> (\<forall>x y. authorization = x @ ''Bearer '' @ y \<longrightarrow>
             replace ''Bearer '' [] authorization
               = replace ''Bearer '' [] x @ replace ''Bearer '' [] y)
       \<and> (\<not> sublist ''Bearer '' authorization \<longrightarrow>
             replace ''Bearer '' [] authorization = authorization)"
proof (intro conjI allI impI)
  show "get_current_user get_user (Some authorization) =
           (case validate_user_token get_user (replace ''Bearer '' [] authorization) of
              None \<Rightarrow> Inl (HTTPException 401 ''Authentication failed'')
            | Some user \<Rightarrow> Inr user)"
    using assms by (simp add: get_current_user_def)
next
  fix x y
  assume "authorization = x @ ''Bearer '' @ y"
  then show "replace ''Bearer '' [] authorization
               = replace ''Bearer '' [] x @ replace ''Bearer '' [] y"
    using replace_append[of "''Bearer ''" x y, OF _ Bearer_border] by simp
next
  assume "\<not> sublist ''Bearer '' authorization"
  then show "replace ''Bearer '' [] authorization = authorization"
    by (rule replace_absent)
qed

theorem bearer_removed_everywhere_witness:
  "''Bearer tok-Bearer alice'' \<noteq> []
   \<and> get_current_user idp (Some ''Bearer tok-Bearer alice'') = Inr alice
   \<and> get_current_user idp (Some ''tok-alice'') = Inr alice"
  using bearer_removed_everywhere[THEN conjunct1, of "''Bearer tok-Bearer alice''" idp]
    bearer_removed_everywhere[THEN conjunct1, of "''tok-alice''" idp]
  by (simp add: validate_user_token_def)

section \<open>Session titles\<close>

text \<open>
  C5, as amended. The title given at session creation is the first 50 characters of the message,
  followed by \<open>...\<close> exactly when the message is longer than 50 characters. The title of the
  auto-rename branch is built the same way from the first 50 characters with the whitespace
  at both ends stripped. The two titles are equal exactly when the message is empty or its
  first 50 characters neither begin nor end with whitespace.
\<close>

theorem auto_title_rule:
  "new_title_of_message message
     = strip (take 50 message) @ (if length message > 50 then ''...'' else [])
   \<and> title_of_message message
     = take 50 message @ (if length message > 50 then ''...'' else [])
   \<and> ((new_title_of_message message = title_of_message message)
        = (message = [] \<or> (\<not> isspace (hd message) \<and> \<not> isspace (last (take 50 message)))))"
proof -
  have n: "new_title_of_message message
     = strip (take 50 message) @ (if length message > 50 then ''...'' else [])"
    by (simp add: new_title_of_message_def Let_def)
  have t: "title_of_message message
     = take 50 message @ (if length message > 50 then ''...'' else [])"
    by (simp add: title_of_message_def)
  have "(new_title_of_message message = title_of_message message)
        = (strip (take 50 message) = take 50 message)"
    unfolding n t by simp
  also have "\<dots> = (take 50 message = []
        \<or> (\<not> isspace (hd (take 50 message)) \<and> \<not> isspace (last (take 50 message))))"
    by (rule strip_id_iff)
  also have "\<dots> = (message = [] \<or> (\<not> isspace (hd message) \<and> \<not> isspace (last (take 50 message))))"
    by (cases message) simp_all
  finally show ?thesis using n t by simp
qed

theorem auto_title_rule_witness:
  "new_title_of_message ''Hello'' = ''Hello'' \<and> title_of_message ''Hello'' = ''Hello''"
  using auto_title_rule[of "''Hello''"] by (auto simp: isspace_def)

text \<open>
  C5 as stated fails: for the message \<open>'' hi''\<close> the auto-rename branch computes \<open>''hi''\<close> and session
  creation computes \<open>'' hi''\<close>.
\<close>

theorem titles_differ_on_leading_space:
  "new_title_of_message '' hi'' = ''hi'' \<and> title_of_message '' hi'' = '' hi''
   \<and> new_title_of_message '' hi'' \<noteq> title_of_message '' hi''"
  by (simp add: new_title_of_message_def title_of_message_def strip_def isspace_def)

section \<open>Sessions of other users\<close>

lemma get_session_by_id_absent:
  assumes "\<forall>s \<in> set (chat_sessions d). s_id s = sid \<longrightarrow> s_user_id s \<noteq> uid"
  shows "get_session_by_id f d sid uid = None"
proof -
  from assms have "filter (\<lambda>s. s_id s = sid \<and> s_user_id s = uid) (chat_sessions d) = []"
    by (auto simp: filter_empty_conv)
  then show ?thesis
    by (cases f) (simp_all add: get_session_by_id_def select_session_single_def)
qed

text \<open>
  C2, as amended. Let \<open>sid\<close> be a session identifier under which the caller owns no session
  (no such session exists, or it belongs to someone else). Then \<^verbatim>\<open>GET /chat/sessions/{id}/history\<close>
  and \<^verbatim>\<open>DELETE /chat/sessions/{id}\<close> answer 404, and so do \<^verbatim>\<open>POST /chat\<close> and
  \<^verbatim>\<open>GET /chat/history\<close> when \<open>sid\<close> is not the empty string; the answer carries no data of any
  session, and the database is left as it was. This holds whatever the datastore calls do.
\<close>

theorem foreign_session_not_found:
  assumes "\<forall>s \<in> set (chat_sessions d). s_id s = sid \<longrightarrow> s_user_id s \<noteq> u_id user"
  shows "(sid \<noteq> [] \<longrightarrow>
            send_chat_message env d user \<lparr>req_message = message, req_session_id = Some sid\<rparr>
              = (d, Inl (HTTPException 404 ''Session not found or does not belong to current user'')))
       \<and> get_session_history f_verify f_read d user sid limit
              = Inl (HTTPException 404 ''Session not found or does not belong to current user'')
       \<and> (sid \<noteq> [] \<longrightarrow>
            get_chat_history_route f_verify f_read d user limit (Some sid)
              = Inl (HTTPException 404 ''Session not found or does not belong to current user''))
       \<and> delete_chat_session f_verify f_delete d user sid
              = (d, Inl (HTTPException 404 ''Session not found or does not belong to current user''))"
  using get_session_by_id_absent[OF assms]
  by (simp add: send_chat_message_def get_session_history_def get_chat_history_route_def
      delete_chat_session_def delete_session_def)

theorem foreign_session_not_found_witness:
  "send_chat_message healthy_env gym_db alice \<lparr>req_message = ''Hello'', req_session_id = Some ''s-7''\<rparr>
     = (gym_db, Inl (HTTPException 404 ''Session not found or does not belong to current user''))
   \<and> get_session_history No_fault No_fault gym_db alice ''s-7'' 50
     = Inl (HTTPException 404 ''Session not found or does not belong to current user'')
   \<and> get_chat_history_route No_fault No_fault gym_db alice 10 (Some ''s-7'')
     = Inl (HTTPException 404 ''Session not found or does not belong to current user'')
   \<and> delete_chat_session No_fault No_fault gym_db alice ''s-7''
     = (gym_db, Inl (HTTPException 404 ''Session not found or does not belong to current user''))"
proof -
  have "\<forall>s \<in> set (chat_sessions gym_db). s_id s = ''s-7'' \<longrightarrow> s_user_id s \<noteq> u_id alice"
    by simp
  from foreign_session_not_found[OF this] show ?thesis by simp
qed

text \<open>
  C2 as stated fails for the empty string, an identifier no session has: the guards
  \<^verbatim>\<open>if request.session_id:\<close> of \<^verbatim>\<open>POST /chat\<close> and \<^verbatim>\<open>if session_id:\<close> of \<^verbatim>\<open>GET /chat/history\<close> are
  false for it, the session check is not made, and both answer with success instead of 404.
\<close>

theorem empty_session_id_not_rejected:
  "snd (send_chat_message healthy_env gym_db alice \<lparr>req_message = ''Hello'', req_session_id = Some []\<rparr>)
     = Inr \<lparr>resp_message = ''You said: q2'', resp_timestamp = 12, resp_session_id = Some ''s-9'',
            resp_session_title = None\<rparr>
   \<and> get_chat_history_route No_fault No_fault empty_db alice 10 (Some []) = Inr []"
  by code_simp

section \<open>The chat turn\<close>

lemma log_chat_message_failed_insert:
  assumes "on_insert_message lenv \<noteq> No_fault"
  shows "m_session_id (snd (log_chat_message lenv d uid m ai sid)) =
           (if truthy sid then Some sid
            else if on_insert_session lenv = No_fault \<and> session_uuid lenv \<noteq> []
                 then Some (Some (session_uuid lenv)) else None)"
  using assms
  by (cases "on_insert_message lenv"; cases "on_insert_session lenv";
      simp add: log_chat_message_def create_chat_session_def insert_session_def
        insert_message_def truthy_def Let_def split: option.splits)

lemma send_chat_message_completed:
  assumes resolved:
     "\<not> (case req_session_id request of None \<Rightarrow> False
          | Some sid \<Rightarrow> sid \<noteq> [] \<and> get_session_by_id (on_resolve env) d sid (u_id user) = None)"
    and completed:
     "get_chat_response (completions_create env) (SYSTEM_PROMPT env) (req_message request)
        (get_recent_context (on_context env) d (u_id user) (req_session_id request) 5)
      = Inr ai_response"
    and logged:
     "log_chat_message (logging env) d (u_id user) (req_message request) ai_response
        (req_session_id request) = (d1, stored_message)"
    and final:
     "final_session_id = (case m_session_id stored_message of
                            None \<Rightarrow> req_session_id request | Some v \<Rightarrow> v)"
  shows "send_chat_message env d user request =
     (case (case final_session_id of
              None \<Rightarrow> (d1, None)
            | Some sid \<Rightarrow>
                if sid = [] then (d1, None)
                else (case get_session_by_id (on_current env) d1 sid (u_id user) of
                        None \<Rightarrow> (d1, None)
                      | Some current_session \<Rightarrow>
                          if s_title current_session = ''New Chat''
                             \<and> s_message_count current_session = 1
                          then (fst (update_session_title (on_verify env) (on_update env)
                                       (title_now env) d1 sid (u_id user)
                                       (new_title_of_message (req_message request))),
                                Some (new_title_of_message (req_message request)))
                          else (d1, None))) of
        (d2, updated_title) \<Rightarrow>
          (d2, Inr \<lparr>resp_message = ai_response,
                    resp_timestamp = m_created_at stored_message,
                    resp_session_id = final_session_id,
                    resp_session_title = updated_title\<rparr>))"
  using resolved unfolding send_chat_message_def
  by (simp add: completed logged final Let_def cong: if_cong option.case_cong)

text \<open>
  C1. In every chat turn in which the session check passes, the completion call succeeds with
  the reply \<open>ai_response\<close>, and the insert of the message record fails (it raises or returns no
  data), \<^verbatim>\<open>POST /chat\<close> answers with a success response whose message is \<open>ai_response\<close>. Its
  session identifier is the one of the request when that is non-empty, else the new session's
  when the session could be created, else the (absent or empty) one of the request.
\<close>

theorem reply_survives_failed_write:
  assumes resolved:
     "\<not> (case req_session_id request of None \<Rightarrow> False
          | Some sid \<Rightarrow> sid \<noteq> [] \<and> get_session_by_id (on_resolve env) d sid (u_id user) = None)"
    and completed:
     "get_chat_response (completions_create env) (SYSTEM_PROMPT env) (req_message request)
        (get_recent_context (on_context env) d (u_id user) (req_session_id request) 5)
      = Inr ai_response"
    and failed: "on_insert_message (logging env) \<noteq> No_fault"
  shows "\<exists>r. snd (send_chat_message env d user request) = Inr r
           \<and> resp_message r = ai_response
           \<and> resp_session_id r =
               (if truthy (req_session_id request) then req_session_id request
                else if on_insert_session (logging env) = No_fault \<and> session_uuid (logging env) \<noteq> []
                     then Some (session_uuid (logging env))
                     else req_session_id request)"
proof -
  obtain d1 stored where logged:
    "log_chat_message (logging env) d (u_id user) (req_message request) ai_response
       (req_session_id request) = (d1, stored)"
    by (cases "log_chat_message (logging env) d (u_id user) (req_message request) ai_response
       (req_session_id request)")
  from log_chat_message_failed_insert[OF failed, of d "u_id user" "req_message request" ai_response
      "req_session_id request"] logged
  have sid: "m_session_id stored =
           (if truthy (req_session_id request) then Some (req_session_id request)
            else if on_insert_session (logging env) = No_fault \<and> session_uuid (logging env) \<noteq> []
                 then Some (Some (session_uuid (logging env))) else None)"
    by simp
  show ?thesis
    unfolding send_chat_message_completed[OF resolved completed logged refl]
    by (simp add: sid split: option.splits prod.splits)
qed

theorem reply_survives_failed_write_witness:
  "on_insert_message (logging write_failing_env) \<noteq> No_fault
   \<and> (\<exists>r. snd (send_chat_message write_failing_env gym_db alice
                  \<lparr>req_message = ''Hello'', req_session_id = None\<rparr>) = Inr r
          \<and> resp_message r = ''You said: q2'' \<and> resp_session_id r = None)"
proof -
  let ?request = "\<lparr>req_message = ''Hello'', req_session_id = None\<rparr>"
  have resolved: "\<not> (case req_session_id ?request of None \<Rightarrow> False
          | Some sid \<Rightarrow> sid \<noteq> []
              \<and> get_session_by_id (on_resolve write_failing_env) gym_db sid (u_id alice) = None)"
    by simp
  have completed: "get_chat_response (completions_create write_failing_env)
        (SYSTEM_PROMPT write_failing_env) (req_message ?request)
        (get_recent_context (on_context write_failing_env) gym_db (u_id alice)
           (req_session_id ?request) 5)
      = Inr ''You said: q2''"
    by code_simp
  have failed: "on_insert_message (logging write_failing_env) \<noteq> No_fault"
    by simp
  from reply_survives_failed_write[OF resolved completed failed]
  obtain r where r: "snd (send_chat_message write_failing_env gym_db alice ?request) = Inr r"
    and m: "resp_message r = ''You said: q2''"
    and s: "resp_session_id r =
               (if truthy (req_session_id ?request) then req_session_id ?request
                else if on_insert_session (logging write_failing_env) = No_fault
                        \<and> session_uuid (logging write_failing_env) \<noteq> []
                     then Some (session_uuid (logging write_failing_env))
                     else req_session_id ?request)"
    by blast
  from s have "resp_session_id r = None" by (simp add: truthy_def)
  with r m failed show ?thesis by blast
qed

section \<open>The context fetch\<close>

lemma get_recent_context_last:
  "get_recent_context No_fault d uid sid limit =
     map context_of (drop (length (user_messages d uid sid) - limit)
                       (sort_key m_created_at (user_messages d uid sid)))"
proof -
  let ?asc = "sort_key m_created_at (user_messages d uid sid)"
  have "rev (map context_of (take limit (rev ?asc))) = map context_of (drop (length ?asc - limit) ?asc)"
    by (simp add: rev_map rev_take)
  moreover have "?asc = [] \<longleftrightarrow> user_messages d uid sid = []"
    by (metis length_sort length_0_conv)
  ultimately show ?thesis
    by (simp add: get_recent_context_def select_messages_def)
qed

lemma older_before_recent:
  assumes "x \<in> set (take k (sort_key f xs))" and "y \<in> set (drop k (sort_key f xs))"
  shows "f x \<le> f y"
proof -
  have "sorted (map f (take k (sort_key f xs) @ drop k (sort_key f xs)))"
    by simp
  then show ?thesis using assms unfolding map_append sorted_append by auto
qed

text \<open>
  C6. Let \<open>records\<close> be the message records stored for the caller under the session \<open>sid\<close>, and
  let the query of the context fetch succeed. The fetch with limit 5 returns \<open>min N 5\<close> records,
  \<open>N\<close> being the number of \<open>records\<close>: the last five of \<open>records\<close> in ascending order of
  creation time (all of them when \<open>N < 5\<close>), themselves in ascending order of creation time,
  and every record left out is at least as old as every record returned.
\<close>

theorem context_fetch_window:
  fixes d :: db and user_id sid :: string
  defines "records \<equiv> filter (\<lambda>m. m_user_id m = user_id \<and> m_session_id m = Some (Some sid)) (chat_messages d)"
  defines "chronological \<equiv> sort_key m_created_at records"
  defines "recent \<equiv> drop (length records - 5) chronological"
  assumes "sid \<noteq> []"
  shows "get_recent_context No_fault d user_id (Some sid) 5 = map context_of recent
       \<and> length (get_recent_context No_fault d user_id (Some sid) 5) = min (length records) 5
       \<and> sorted (map m_created_at recent)
       \<and> (length records < 5 \<longrightarrow> recent = chronological)
       \<and> (\<forall>x \<in> set (take (length records - 5) chronological). \<forall>y \<in> set recent.
             m_created_at x \<le> m_created_at y)"
proof -
  have um: "user_messages d user_id (Some sid) = records"
    using assms(4) by (simp add: user_messages_def truthy_def records_def conj_commute)
  have a: "get_recent_context No_fault d user_id (Some sid) 5 = map context_of recent"
    by (simp add: get_recent_context_last um recent_def chronological_def)
  have b: "length recent = min (length records) 5"
    by (simp add: recent_def chronological_def)
  have c: "sorted (map m_created_at recent)"
    unfolding recent_def chronological_def by (simp add: drop_map[symmetric])
  have e: "\<forall>x \<in> set (take (length records - 5) chronological). \<forall>y \<in> set recent.
             m_created_at x \<le> m_created_at y"
    unfolding recent_def chronological_def
    by (intro ballI) (rule older_before_recent[where f = m_created_at])
  from a b c e show ?thesis by (simp add: recent_def)
qed

theorem context_fetch_window_witness:
  "''s-1'' \<noteq> []
   \<and> get_recent_context No_fault gym_db ''alice'' (Some ''s-1'') 5
       = [exchange ''q2'', exchange ''q3'', exchange ''q4'', exchange ''q5'', exchange ''q6'']"
  using context_fetch_window[THEN conjunct1, of "''s-1''" gym_db "''alice''"]
  by (simp add: context_of_def)



section \<open>The auto-title branch\<close>

lemma count_message_keeps:
  "s_id (count_message x s) = s_id s"
  "s_user_id (count_message x s) = s_user_id s"
  "s_title (count_message x s) = s_title s"
  by (simp_all add: count_message_def)

lemma log_chat_message_keeps_titles:
  "map (\<lambda>s. (s_id s, s_user_id s, s_title s))
       (take (length (chat_sessions d)) (chat_sessions (fst (log_chat_message lenv d uid m ai sid))))
   = map (\<lambda>s. (s_id s, s_user_id s, s_title s)) (chat_sessions d)"
  by (cases "on_insert_session lenv"; cases "on_insert_message lenv")
     (simp_all add: log_chat_message_def create_chat_session_def insert_session_def
        insert_message_def Let_def comp_def count_message_keeps take_map[symmetric])

text \<open>
  C7. Take a chat turn that reaches the write (the session check passed, the completion call
  returned \<open>ai_response\<close>), and let \<open>current_session\<close> be the session read back after the
  exchange was persisted. If its message count is not 1, or its title is not \<open>New Chat\<close>, the
  turn ends with the database exactly as \<^verbatim>\<open>log_chat_message\<close> left it, the response reports no
  title, and every session that existed before the turn still has its identifier, owner and
  title.
\<close>

theorem no_rename_unless_first_turn:
  fixes env :: turn_env and d :: db and user :: user_info and request :: ChatRequest
    and ai_response :: string
  defines "logged \<equiv> log_chat_message (logging env) d (u_id user) (req_message request)
                        ai_response (req_session_id request)"
  defines "final_session_id \<equiv> (case m_session_id (snd logged) of
                                   None \<Rightarrow> req_session_id request | Some v \<Rightarrow> v)"
  assumes resolved:
     "\<not> (case req_session_id request of None \<Rightarrow> False
          | Some sid \<Rightarrow> sid \<noteq> [] \<and> get_session_by_id (on_resolve env) d sid (u_id user) = None)"
    and completed:
     "get_chat_response (completions_create env) (SYSTEM_PROMPT env) (req_message request)
        (get_recent_context (on_context env) d (u_id user) (req_session_id request) 5)
      = Inr ai_response"
    and final: "final_session_id = Some sid"
    and current: "get_session_by_id (on_current env) (fst logged) sid (u_id user) = Some current_session"
    and later: "s_message_count current_session \<noteq> 1 \<or> s_title current_session \<noteq> ''New Chat''"
  shows "fst (send_chat_message env d user request) = fst logged
       \<and> (\<exists>r. snd (send_chat_message env d user request) = Inr r \<and> resp_session_title r = None)
       \<and> map (\<lambda>s. (s_id s, s_user_id s, s_title s))
             (take (length (chat_sessions d))
                (chat_sessions (fst (send_chat_message env d user request))))
           = map (\<lambda>s. (s_id s, s_user_id s, s_title s)) (chat_sessions d)"
proof -
  have logged: "log_chat_message (logging env) d (u_id user) (req_message request)
                  ai_response (req_session_id request) = (fst logged, snd logged)"
    by (simp add: logged_def)
  have final': "Some sid = (case m_session_id (snd logged) of
                                   None \<Rightarrow> req_session_id request | Some v \<Rightarrow> v)"
    using final by (simp add: final_session_id_def)
  have "send_chat_message env d user request =
          (fst logged, Inr \<lparr>resp_message = ai_response,
                             resp_timestamp = m_created_at (snd logged),
                             resp_session_id = Some sid, resp_session_title = None\<rparr>)"
    unfolding send_chat_message_completed[OF resolved completed logged final']
    using current later by auto
  moreover have "map (\<lambda>s. (s_id s, s_user_id s, s_title s))
             (take (length (chat_sessions d)) (chat_sessions (fst logged)))
           = map (\<lambda>s. (s_id s, s_user_id s, s_title s)) (chat_sessions d)"
    unfolding logged_def by (rule log_chat_message_keeps_titles)
  ultimately show ?thesis by simp
qed

theorem no_rename_unless_first_turn_witness:
  "(\<exists>r. snd (send_chat_message healthy_env gym_db alice
               \<lparr>req_message = ''Hello'', req_session_id = Some ''s-1''\<rparr>) = Inr r
       \<and> resp_session_title r = None)
   \<and> map (\<lambda>s. (s_id s, s_user_id s, s_title s))
        (take (length (chat_sessions gym_db))
           (chat_sessions (fst (send_chat_message healthy_env gym_db alice
                                  \<lparr>req_message = ''Hello'', req_session_id = Some ''s-1''\<rparr>))))
     = [(''s-1'', ''alice'', ''Leg day''), (''s-7'', ''bob'', ''Protein'')]"
proof -
  let ?request = "\<lparr>req_message = ''Hello'', req_session_id = Some ''s-1''\<rparr>"
  let ?logged = "log_chat_message (logging healthy_env) gym_db (u_id alice) (req_message ?request)
                   ''You said: q2'' (req_session_id ?request)"
  let ?current = "\<lparr>s_id = ''s-1'', s_user_id = ''alice'', s_title = ''Leg day'',
                    s_created_at = 1, s_updated_at = 6, s_message_count = 7\<rparr>"
  have resolved: "\<not> (case req_session_id ?request of None \<Rightarrow> False
          | Some sid \<Rightarrow> sid \<noteq> []
              \<and> get_session_by_id (on_resolve healthy_env) gym_db sid (u_id alice) = None)"
    by code_simp
  have completed:
    "get_chat_response (completions_create healthy_env) (SYSTEM_PROMPT healthy_env)
       (req_message ?request)
       (get_recent_context (on_context healthy_env) gym_db (u_id alice) (req_session_id ?request) 5)
     = Inr ''You said: q2''"
    by code_simp
  have final: "(case m_session_id (snd ?logged) of
                  None \<Rightarrow> req_session_id ?request | Some v \<Rightarrow> v) = Some ''s-1''"
    by code_simp
  have current: "get_session_by_id (on_current healthy_env) (fst ?logged) ''s-1'' (u_id alice)
                   = Some ?current"
    by code_simp
  have later: "s_message_count ?current \<noteq> 1 \<or> s_title ?current \<noteq> ''New Chat''"
    by simp
  from no_rename_unless_first_turn[OF resolved completed final current later]
  have "\<exists>r. snd (send_chat_message healthy_env gym_db alice ?request) = Inr r
           \<and> resp_session_title r = None"
    and "map (\<lambda>s. (s_id s, s_user_id s, s_title s))
           (take (length (chat_sessions gym_db))
              (chat_sessions (fst (send_chat_message healthy_env gym_db alice ?request))))
         = map (\<lambda>s. (s_id s, s_user_id s, s_title s)) (chat_sessions gym_db)"
    by blast+
  moreover have "map (\<lambda>s. (s_id s, s_user_id s, s_title s)) (chat_sessions gym_db)
         = [(''s-1'', ''alice'', ''Leg day''), (''s-7'', ''bob'', ''Protein'')]"
    by simp
  ultimately show ?thesis by (simp only:) 
qed

section \<open>The first turn of a new session\<close>

lemma get_session_by_id_SomeD:
  assumes "get_session_by_id f d sid uid = Some s"
  shows "filter (\<lambda>s. s_id s = sid \<and> s_user_id s = uid) (chat_sessions d) = [s]"
  using assms
  by (cases f)
     (auto simp: get_session_by_id_def select_session_single_def split: list.splits if_splits)

lemma log_chat_message_new_session:
  assumes "\<not> truthy sid"
    and "on_insert_session lenv = No_fault" and "on_insert_message lenv = No_fault"
    and "session_uuid lenv \<noteq> []"
  shows "log_chat_message lenv d uid m ai sid =
           (\<lparr>chat_sessions =
                map (count_message (Some (session_uuid lenv))) (chat_sessions d)
                @ [\<lparr>s_id = session_uuid lenv, s_user_id = uid, s_title = title_of_message m,
                    s_created_at = session_created_now lenv,
                    s_updated_at = session_updated_now lenv, s_message_count = 1\<rparr>],
              chat_messages =
                chat_messages d
                @ [\<lparr>m_id = message_uuid lenv, m_user_id = uid,
                    m_session_id = Some (Some (session_uuid lenv)),
                    m_user_message = m, m_ai_response = ai, m_created_at = message_now lenv\<rparr>]\<rparr>,
            \<lparr>m_id = message_uuid lenv, m_user_id = uid,
             m_session_id = Some (Some (session_uuid lenv)),
             m_user_message = m, m_ai_response = ai, m_created_at = message_now lenv\<rparr>)"
  using assms
  by (simp add: log_chat_message_def create_chat_session_def insert_session_def
      insert_message_def Let_def truthy_def count_message_def)

lemma count_message_fresh:
  assumes "uuid \<notin> s_id ` set xs"
  shows "map (count_message (Some uuid)) xs = xs"
  using assms by (induction xs) (auto simp: count_message_def)

lemma title_New_Chat:
  assumes "title_of_message m = ''New Chat''"
  shows "new_title_of_message m = ''New Chat''"
proof -
  have "\<not> length m > 50"
  proof
    assume "length m > 50"
    then have "length (title_of_message m) = 53" by (simp add: title_of_message_def)
    with assms show False by simp
  qed
  with assms have "m = ''New Chat''" by (simp add: title_of_message_def)
  then show ?thesis by (simp add: new_title_of_message_def strip_def isspace_def)
qed

lemma update_session_title_fresh:
  assumes "uuid \<notin> s_id ` set xs" and "s_id new = uuid" and "s_user_id new = uid"
    and "chat_sessions d1 = xs @ [new]"
  shows "chat_sessions (fst (update_session_title fv fu now d1 uuid uid t)) = xs @ [new]
       \<or> chat_sessions (fst (update_session_title fv fu now d1 uuid uid t))
           = xs @ [new\<lparr>s_title := t, s_updated_at := now\<rparr>]"
proof -
  from assms(1) have "map (\<lambda>s. if s_id s = uuid \<and> s_user_id s = uid
                         then s\<lparr>s_title := t, s_updated_at := now\<rparr> else s) xs = xs"
    by (induction xs) auto
  with assms show ?thesis
    by (cases fu) (auto simp: update_session_title_def update_title_def split: option.splits)
qed

text \<open>
  C3. For every valid message, a chat turn with no session identifier whose completion call
  succeeds and whose two inserts work (the new identifier being non-empty and not yet in
  use) adds exactly one session to the table: it belongs to the caller, its message count is
  1, and its title is the first 50 characters of the message, followed by \<open>...\<close> exactly when
  the message is longer than 50 characters. The message count is kept by the datastore, see
  \<^const>\<open>count_message\<close>.
\<close>

theorem first_turn_creates_titled_session:
  assumes valid: "ChatRequest_valid request"
    and absent: "req_session_id request = None"
    and completed:
     "get_chat_response (completions_create env) (SYSTEM_PROMPT env) (req_message request)
        (get_recent_context (on_context env) d (u_id user) (req_session_id request) 5)
      = Inr ai_response"
    and healthy: "on_insert_session (logging env) = No_fault"
                 "on_insert_message (logging env) = No_fault"
    and uuid: "session_uuid (logging env) \<noteq> []"
    and fresh: "session_uuid (logging env) \<notin> s_id ` set (chat_sessions d)"
  shows "\<exists>new. chat_sessions (fst (send_chat_message env d user request)) = chat_sessions d @ [new]
           \<and> s_id new = session_uuid (logging env)
           \<and> s_user_id new = u_id user
           \<and> s_message_count new = 1
           \<and> s_title new = take 50 (req_message request)
                             @ (if length (req_message request) > 50 then ''...'' else [])"
proof -
  let ?uuid = "session_uuid (logging env)"
  let ?m = "req_message request"
  let ?new = "\<lparr>s_id = ?uuid, s_user_id = u_id user, s_title = title_of_message ?m,
               s_created_at = session_created_now (logging env),
               s_updated_at = session_updated_now (logging env), s_message_count = 1\<rparr>"
  let ?row = "\<lparr>m_id = message_uuid (logging env), m_user_id = u_id user,
               m_session_id = Some (Some ?uuid),
               m_user_message = ?m, m_ai_response = ai_response,
               m_created_at = message_now (logging env)\<rparr>"
  let ?d1 = "\<lparr>chat_sessions = chat_sessions d @ [?new],
              chat_messages = chat_messages d @ [?row]\<rparr>"
  have title: "title_of_message ?m = take 50 ?m @ (if length ?m > 50 then ''...'' else [])"
    by (simp add: title_of_message_def)
  have resolved: "\<not> (case req_session_id request of None \<Rightarrow> False
          | Some sid \<Rightarrow> sid \<noteq> [] \<and> get_session_by_id (on_resolve env) d sid (u_id user) = None)"
    by (simp add: absent)
  have logged: "log_chat_message (logging env) d (u_id user) ?m ai_response (req_session_id request)
                  = (?d1, ?row)"
    using log_chat_message_new_session[OF _ healthy uuid, of "req_session_id request" d "u_id user" ?m ai_response]
    by (simp add: absent truthy_def count_message_fresh[OF fresh])
  have final: "Some ?uuid = (case m_session_id ?row of None \<Rightarrow> req_session_id request | Some v \<Rightarrow> v)"
    by simp
  note normal = send_chat_message_completed[OF resolved completed logged final]
  have upd: "chat_sessions (fst (update_session_title (on_verify env) (on_update env) (title_now env)
                ?d1 ?uuid (u_id user) t)) = chat_sessions d @ [?new]
       \<or> chat_sessions (fst (update_session_title (on_verify env) (on_update env) (title_now env)
                ?d1 ?uuid (u_id user) t))
           = chat_sessions d @ [?new\<lparr>s_title := t, s_updated_at := title_now env\<rparr>]" for t
    by (rule update_session_title_fresh[OF fresh]) simp_all
  show ?thesis
  proof (cases "get_session_by_id (on_current env) ?d1 ?uuid (u_id user)")
    case None
    then have "chat_sessions (fst (send_chat_message env d user request)) = chat_sessions d @ [?new]"
      unfolding normal using uuid by simp
    then show ?thesis using title by simp
  next
    case (Some cs)
    from get_session_by_id_SomeD[OF Some] fresh have cs: "cs = ?new"
      by (auto simp: filter_empty_conv image_iff)
    show ?thesis
    proof (cases "title_of_message ?m = ''New Chat''")
      case False
      with Some cs have "chat_sessions (fst (send_chat_message env d user request)) = chat_sessions d @ [?new]"
        unfolding normal using uuid by simp
      then show ?thesis using title by simp
    next
      case True
      then have nt: "new_title_of_message ?m = ''New Chat''" by (rule title_New_Chat)
      from True Some cs uuid
      have "chat_sessions (fst (send_chat_message env d user request))
              = chat_sessions (fst (update_session_title (on_verify env) (on_update env) (title_now env)
                ?d1 ?uuid (u_id user) ''New Chat''))"
        unfolding normal by (simp add: nt)
      with upd[of "''New Chat''"] True title show ?thesis by auto
    qed
  qed
qed

theorem first_turn_creates_titled_session_witness:
  "ChatRequest_valid \<lparr>req_message = ''I want to start working out but I am a complete beginner'',
                       req_session_id = None\<rparr>
   \<and> session_uuid (logging healthy_env) \<notin> s_id ` set (chat_sessions gym_db)
   \<and> (\<exists>new. chat_sessions (fst (send_chat_message healthy_env gym_db alice
                 \<lparr>req_message = ''I want to start working out but I am a complete beginner'',
                  req_session_id = None\<rparr>)) = chat_sessions gym_db @ [new]
          \<and> s_id new = ''s-9'' \<and> s_user_id new = ''alice'' \<and> s_message_count new = 1
          \<and> s_title new = ''I want to start working out but I am a complete be...'')"
proof -
  let ?request = "\<lparr>req_message = ''I want to start working out but I am a complete beginner'',
                    req_session_id = None\<rparr>"
  have valid: "ChatRequest_valid ?request"
    by (simp add: ChatRequest_valid_def)
  have absent: "req_session_id ?request = None"
    by simp
  have completed:
    "get_chat_response (completions_create healthy_env) (SYSTEM_PROMPT healthy_env)
       (req_message ?request)
       (get_recent_context (on_context healthy_env) gym_db (u_id alice) (req_session_id ?request) 5)
     = Inr ''You said: q2''"
    by code_simp
  have healthy: "on_insert_session (logging healthy_env) = No_fault"
    "on_insert_message (logging healthy_env) = No_fault"
    by simp_all
  have uuid: "session_uuid (logging healthy_env) \<noteq> []"
    by simp
  have fresh: "session_uuid (logging healthy_env) \<notin> s_id ` set (chat_sessions gym_db)"
    by simp
  from first_turn_creates_titled_session[OF valid absent completed healthy uuid fresh]
  obtain new where
    sessions: "chat_sessions (fst (send_chat_message healthy_env gym_db alice ?request))
       = chat_sessions gym_db @ [new]"
    and new: "s_id new = session_uuid (logging healthy_env)" "s_user_id new = u_id alice"
    "s_message_count new = 1"
    "s_title new = take 50 (req_message ?request)
                     @ (if length (req_message ?request) > 50 then ''...'' else [])"
    by blast
  from new have "s_id new = ''s-9''" "s_user_id new = ''alice''"
    "s_title new = ''I want to start working out but I am a complete be...''"
    by simp_all
  with valid fresh sessions new(3) show ?thesis by blast
qed

text \<open>
  C4, as amended. For \<^verbatim>\<open>POST /chat\<close> with the message \<open>Hello\<close> and no session identifier, when
  the two inserts work, the new identifier is non-empty and the completion service returns a
  non-empty reply: the response has the new, non-empty session identifier, no session title,
  and the reply as its message; the title \<open>Hello\<close> is stored on the new session.
\<close>

theorem hello_turn_reports_no_title:
  assumes message: "req_message request = ''Hello''"
    and absent: "req_session_id request = None"
    and completed:
     "get_chat_response (completions_create env) (SYSTEM_PROMPT env) (req_message request)
        (get_recent_context (on_context env) d (u_id user) (req_session_id request) 5)
      = Inr ai_response"
    and nonempty: "ai_response \<noteq> []"
    and healthy: "on_insert_session (logging env) = No_fault"
                 "on_insert_message (logging env) = No_fault"
    and uuid: "session_uuid (logging env) \<noteq> []"
  shows "(\<exists>r. snd (send_chat_message env d user request) = Inr r
            \<and> resp_session_id r = Some (session_uuid (logging env))
            \<and> resp_session_id r \<noteq> Some []
            \<and> resp_session_title r = None
            \<and> resp_message r = ai_response
            \<and> resp_message r \<noteq> [])
       \<and> (\<exists>s \<in> set (chat_sessions (fst (send_chat_message env d user request))).
             s_id s = session_uuid (logging env) \<and> s_user_id s = u_id user
             \<and> s_title s = ''Hello'')"
proof -
  let ?uuid = "session_uuid (logging env)"
  let ?new = "\<lparr>s_id = ?uuid, s_user_id = u_id user, s_title = title_of_message ''Hello'',
               s_created_at = session_created_now (logging env),
               s_updated_at = session_updated_now (logging env), s_message_count = 1\<rparr>"
  let ?row = "\<lparr>m_id = message_uuid (logging env), m_user_id = u_id user,
               m_session_id = Some (Some ?uuid),
               m_user_message = ''Hello'', m_ai_response = ai_response,
               m_created_at = message_now (logging env)\<rparr>"
  let ?d1 = "\<lparr>chat_sessions = map (count_message (Some ?uuid)) (chat_sessions d) @ [?new],
              chat_messages = chat_messages d @ [?row]\<rparr>"
  have title: "title_of_message ''Hello'' = ''Hello''"
    by (simp add: title_of_message_def)
  have resolved: "\<not> (case req_session_id request of None \<Rightarrow> False
          | Some sid \<Rightarrow> sid \<noteq> [] \<and> get_session_by_id (on_resolve env) d sid (u_id user) = None)"
    by (simp add: absent)
  have logged: "log_chat_message (logging env) d (u_id user) (req_message request) ai_response
                  (req_session_id request) = (?d1, ?row)"
    using log_chat_message_new_session[OF _ healthy uuid, of "req_session_id request" d "u_id user"
        "''Hello''" ai_response]
    by (simp add: absent truthy_def message)
  have final: "Some ?uuid = (case m_session_id ?row of None \<Rightarrow> req_session_id request | Some v \<Rightarrow> v)"
    by simp
  note normal = send_chat_message_completed[OF resolved completed logged final]
  have no_rename: "s_title cs \<noteq> ''New Chat''"
    if "get_session_by_id (on_current env) ?d1 ?uuid (u_id user) = Some cs" for cs
  proof -
    have "?new \<in> set (filter (\<lambda>s. s_id s = ?uuid \<and> s_user_id s = u_id user) (chat_sessions ?d1))"
      by simp
    then have "?new \<in> set [cs]"
      unfolding get_session_by_id_SomeD[OF that] .
    then have "cs = ?new" by simp
    then show ?thesis by (simp add: title)
  qed
  have "send_chat_message env d user request =
          (?d1, Inr \<lparr>resp_message = ai_response, resp_timestamp = m_created_at ?row,
                     resp_session_id = Some ?uuid, resp_session_title = None\<rparr>)"
    unfolding normal using uuid no_rename
    by (cases "get_session_by_id (on_current env) ?d1 ?uuid (u_id user)") auto
  then show ?thesis using nonempty uuid by (simp add: title)
qed

theorem hello_turn_reports_no_title_witness:
  "\<exists>r. snd (send_chat_message healthy_env empty_db alice
              \<lparr>req_message = ''Hello'', req_session_id = None\<rparr>) = Inr r
      \<and> resp_session_id r = Some ''s-9'' \<and> resp_session_title r = None
      \<and> resp_message r = ''You said: Hello''"
proof -
  let ?request = "\<lparr>req_message = ''Hello'', req_session_id = None\<rparr>"
  have message: "req_message ?request = ''Hello''" and absent: "req_session_id ?request = None"
    by simp_all
  have completed:
    "get_chat_response (completions_create healthy_env) (SYSTEM_PROMPT healthy_env)
       (req_message ?request)
       (get_recent_context (on_context healthy_env) empty_db (u_id alice) (req_session_id ?request) 5)
     = Inr ''You said: Hello''"
    by code_simp
  have nonempty: "''You said: Hello'' \<noteq> []"
    by simp
  have healthy: "on_insert_session (logging healthy_env) = No_fault"
    "on_insert_message (logging healthy_env) = No_fault"
    by simp_all
  have uuid: "session_uuid (logging healthy_env) \<noteq> []"
    by simp
  from hello_turn_reports_no_title[OF message absent completed nonempty healthy uuid,
      THEN conjunct1]
  obtain r where "snd (send_chat_message healthy_env empty_db alice ?request) = Inr r"
    "resp_session_id r = Some (session_uuid (logging healthy_env))"
    "resp_session_title r = None" "resp_message r = ''You said: Hello''"
    by blast
  then show ?thesis by simp
qed

text \<open>
  C4 as stated fails: on an empty, healthy database the response to \<open>Hello\<close> has no session
  title (the title is only reported when the auto-rename branch ran), although the session
  is stored with the title \<open>Hello\<close>. And a provider whose content is a single space makes the
  message of the response empty: the check for empty content comes before the \<^verbatim>\<open>strip()\<close>.
\<close>

theorem hello_turn_session_title_absent:
  "snd (send_chat_message healthy_env empty_db alice \<lparr>req_message = ''Hello'', req_session_id = None\<rparr>)
     = Inr \<lparr>resp_message = ''You said: Hello'', resp_timestamp = 12, resp_session_id = Some ''s-9'',
            resp_session_title = None\<rparr>
   \<and> chat_sessions (fst (send_chat_message healthy_env empty_db alice
                            \<lparr>req_message = ''Hello'', req_session_id = None\<rparr>))
     = [\<lparr>s_id = ''s-9'', s_user_id = ''alice'', s_title = ''Hello'',
         s_created_at = 10, s_updated_at = 11, s_message_count = 1\<rparr>]
   \<and> snd (send_chat_message (healthy_env\<lparr>completions_create := \<lambda>prompt. Content (Some '' '')\<rparr>)
            empty_db alice \<lparr>req_message = ''Hello'', req_session_id = None\<rparr>)
     = Inr \<lparr>resp_message = [], resp_timestamp = 12, resp_session_id = Some ''s-9'',
            resp_session_title = None\<rparr>"
  by code_simp

section \<open>Deleting all sessions\<close>

text \<open>
  C8. For a user who owns no session, \<^verbatim>\<open>DELETE /chat/sessions:deleteAll\<close> answers with the
  success body whose \<open>deleted_count\<close> is 0 and leaves the database as it was, provided the
  count query answers (with a count of zero rows or none at all) or raises an error that
  names a missing table; nothing is assumed of the delete call.
\<close>

theorem delete_all_with_no_sessions:
  assumes none: "\<forall>s \<in> set (chat_sessions d). s_user_id s \<noteq> u_id user"
    and answered: "\<forall>e. f_count = Raise e \<longrightarrow> table_missing e"
  shows "delete_all_chat_sessions f_count f_delete d user =
           (d, Inr \<lparr>da_message = ''Successfully deleted 0 chat sessions'', da_deleted_count = 0\<rparr>)"
proof -
  from none have "filter (\<lambda>s. s_user_id s = u_id user) (chat_sessions d) = []"
    by (auto simp: filter_empty_conv)
  with answered have "delete_all_user_sessions f_count f_delete d (u_id user) = (d, Inr 0)"
    by (cases f_count) (simp_all add: delete_all_user_sessions_def count_sessions_def)
  moreover have "str_nat 0 = ''0''"
    by code_simp
  ultimately show ?thesis
    by (simp add: delete_all_chat_sessions_def)
qed

theorem delete_all_with_no_sessions_witness:
  "delete_all_chat_sessions No_fault No_fault gym_db carol =
     (gym_db, Inr \<lparr>da_message = ''Successfully deleted 0 chat sessions'', da_deleted_count = 0\<rparr>)
   \<and> delete_all_chat_sessions (Raise ''relation chat_sessions does not exist'') No_fault gym_db carol =
     (gym_db, Inr \<lparr>da_message = ''Successfully deleted 0 chat sessions'', da_deleted_count = 0\<rparr>)"
proof -
  have none: "\<forall>s \<in> set (chat_sessions gym_db). s_user_id s \<noteq> u_id carol" by simp
  have a: "\<forall>e. No_fault = Raise e \<longrightarrow> table_missing e" by simp
  have b: "\<forall>e. Raise ''relation chat_sessions does not exist'' = Raise e \<longrightarrow> table_missing e"
    by (simp add: table_missing_def sublist_Cons_right)
  from delete_all_with_no_sessions[OF none a] delete_all_with_no_sessions[OF none b]
  show ?thesis by (intro conjI)
qed

end
